theory Spec2Isabelle
  imports Main "HOL-Library.Multiset"
begin

section \<open>Data model\<close>

text \<open>
  The media catalog of the portfolio site: rows of the table \<^verbatim>\<open>website_media\<close>, the
  objects of the storage bucket \<^verbatim>\<open>media\<close>, and the admin handlers that write to both.
  The repository holds two versions of the admin component \<^verbatim>\<open>AdminMediaManager\<close>; the
  handlers of the second one whose names clash with the first carry the suffix \<open>_v2\<close>.
\<close>

text \<open>\<^verbatim>\<open>mediatype: 'artwork' | 'video'\<close>\<close>

datatype media_kind = artwork | video

text \<open>\<^verbatim>\<open>linkType: 'image' | 'video'\<close> of the second admin form.\<close>

datatype link_type = LinkImage | LinkVideo

text \<open>The browser's \<^verbatim>\<open>File\<close>: the three properties the handlers read.\<close>

record File =
  file_name :: string
  file_type :: string
  file_size :: nat

text \<open>
  \<^verbatim>\<open>interface MediaItem\<close>, a row of \<^verbatim>\<open>website_media\<close>. A nullable column is an
  option, \<open>None\<close> standing for SQL NULL (JavaScript \<^verbatim>\<open>null\<close>/\<^verbatim>\<open>undefined\<close>).
  \<^verbatim>\<open>created_at\<close> is a timestamp, here a number of ticks.
\<close>

record MediaItem =
  id' :: string
  name :: string
  url :: string
  type' :: string
  created_at :: nat
  title :: "string option"
  description :: "string option"
  type_detail :: "string option"
  mediatype :: media_kind
  isexternallink :: "bool option"
  storagepath :: "string option"
  video_thumbnail_url :: "string option"
  video_thumbnail_path :: "string option"

text \<open>
  The object literal handed to \<^verbatim>\<open>insert([...])\<close>. Every insert of the source gives
  \<^verbatim>\<open>name, url, type, title, description, type_detail, mediatype, isexternallink\<close>;
  the three remaining columns have no default but NULL, so a key that is left out and a
  key that is \<^verbatim>\<open>null\<close> are both \<open>None\<close>.
\<close>

record MediaDoc =
  doc_name :: string
  doc_url :: string
  doc_type :: string
  doc_title :: string
  doc_description :: string
  doc_type_detail :: string
  doc_mediatype :: media_kind
  doc_isexternallink :: bool
  doc_storagepath :: "string option"
  doc_video_thumbnail_url :: "string option"
  doc_video_thumbnail_path :: "string option"

text \<open>
  The object handed to \<^verbatim>\<open>update(...)\<close>: a key that is absent is \<open>None\<close>, and the
  store leaves that column alone.
\<close>

record UpdateData =
  upd_title :: "string option"
  upd_description :: "string option"
  upd_type_detail :: "string option"
  upd_name :: "string option"

section \<open>The remote services\<close>

text \<open>
  Every call of the client resolves to a pair \<^verbatim>\<open>{ data, error }\<close>; the handlers branch
  on \<^verbatim>\<open>error\<close>. Whether a call succeeds is decided by the service, so each handler
  receives the answers of the services in an environment \<open>env\<close>, together with the
  clock (\<^verbatim>\<open>Date.now()\<close>), the public URL the storage client derives from a path
  (\<^verbatim>\<open>getPublicUrl\<close>) and the browser's URL parser (\<^verbatim>\<open>new URL(s)\<close> succeeds).
  The \<^verbatim>\<open>catch\<close> blocks of the handlers guard against a rejected promise, which this
  client interface does not produce; they have no counterpart below.
\<close>

datatype 'a response = Data 'a | Error string

text \<open>
  The read query the components build:
  \<^verbatim>\<open>from('website_media').select('*')[.eq('mediatype', k)].order('created_at', { ascending })\<close>,
  with the \<^verbatim>\<open>limit(n)\<close> the query builder offers and the source never calls.
\<close>

record select_query =
  eq_mediatype :: "media_kind option"
  order_ascending :: bool
  limit :: "nat option"

datatype call =
    StorageUpload string
  | StorageRemove string
  | TableInsert MediaDoc
  | TableUpdate string UpdateData
  | TableDelete string
  | TableSelect select_query

record world =
  website_media :: "MediaItem list"
  media_bucket :: "(string \<times> File) list"
  calls :: "call list"
  console_error :: "string list"

record env =
  now :: nat
  now_thumbnail :: nat
  upload_main :: "unit response"
  upload_thumbnail :: "unit response"
  insert_row :: "(string \<times> nat) response"
  update_row :: "unit response"
  delete_row :: "unit response"
  remove_main :: "unit response"
  remove_thumbnail :: "unit response"
  select_rows :: "unit response"
  public_url :: "string \<Rightarrow> string"
  url_parses :: "string \<Rightarrow> bool"

definition console_error_log :: "string \<Rightarrow> world \<Rightarrow> world" where
  "console_error_log msg w = w\<lparr>console_error := console_error w @ [msg]\<rparr>"

definition issue :: "call \<Rightarrow> world \<Rightarrow> world" where
  "issue c w = w\<lparr>calls := calls w @ [c]\<rparr>"

text \<open>\<^verbatim>\<open>supabase.storage.from('media').upload(path, file)\<close>\<close>

definition storage_upload :: "string \<Rightarrow> File \<Rightarrow> unit response \<Rightarrow> world \<Rightarrow> world" where
  "storage_upload path f r w =
     (case r of
        Error e \<Rightarrow> issue (StorageUpload path) w
      | Data u \<Rightarrow> issue (StorageUpload path) (w\<lparr>media_bucket := media_bucket w @ [(path, f)]\<rparr>))"

text \<open>\<^verbatim>\<open>supabase.storage.from('media').remove([path])\<close>\<close>

definition storage_remove :: "string \<Rightarrow> unit response \<Rightarrow> world \<Rightarrow> world" where
  "storage_remove path r w =
     (case r of
        Error e \<Rightarrow> issue (StorageRemove path) w
      | Data u \<Rightarrow> issue (StorageRemove path)
          (w\<lparr>media_bucket := filter (\<lambda>kv. fst kv \<noteq> path) (media_bucket w)\<rparr>))"

text \<open>
  \<^verbatim>\<open>from('website_media').insert([doc])\<close>: the table assigns \<^verbatim>\<open>id\<close>
  (\<^verbatim>\<open>gen_random_uuid()\<close>) and \<^verbatim>\<open>created_at\<close> (\<^verbatim>\<open>now()\<close>); both come with
  the answer.
\<close>

definition row_of :: "MediaDoc \<Rightarrow> string \<Rightarrow> nat \<Rightarrow> MediaItem" where
  "row_of d i t =
     \<lparr> id' = i, name = doc_name d, url = doc_url d, type' = doc_type d, created_at = t,
       title = Some (doc_title d), description = Some (doc_description d),
       type_detail = Some (doc_type_detail d), mediatype = doc_mediatype d,
       isexternallink = Some (doc_isexternallink d), storagepath = doc_storagepath d,
       video_thumbnail_url = doc_video_thumbnail_url d,
       video_thumbnail_path = doc_video_thumbnail_path d \<rparr>"

definition table_insert :: "MediaDoc \<Rightarrow> (string \<times> nat) response \<Rightarrow> world \<Rightarrow> world" where
  "table_insert d r w =
     (case r of
        Error e \<Rightarrow> issue (TableInsert d) w
      | Data it \<Rightarrow> issue (TableInsert d)
          (w\<lparr>website_media := website_media w @ [row_of d (fst it) (snd it)]\<rparr>))"

text \<open>\<^verbatim>\<open>from('website_media').update(data).eq('id', id)\<close>\<close>

definition apply_update :: "UpdateData \<Rightarrow> MediaItem \<Rightarrow> MediaItem" where
  "apply_update u r =
     r\<lparr> title := (case upd_title u of None \<Rightarrow> title r | Some v \<Rightarrow> Some v),
        description := (case upd_description u of None \<Rightarrow> description r | Some v \<Rightarrow> Some v),
        type_detail := (case upd_type_detail u of None \<Rightarrow> type_detail r | Some v \<Rightarrow> Some v),
        name := (case upd_name u of None \<Rightarrow> name r | Some v \<Rightarrow> v) \<rparr>"

definition table_update :: "string \<Rightarrow> UpdateData \<Rightarrow> unit response \<Rightarrow> world \<Rightarrow> world" where
  "table_update i u r w =
     (case r of
        Error e \<Rightarrow> issue (TableUpdate i u) w
      | Data x \<Rightarrow> issue (TableUpdate i u)
          (w\<lparr>website_media :=
               map (\<lambda>row. if id' row = i then apply_update u row else row) (website_media w)\<rparr>))"

text \<open>\<^verbatim>\<open>from('website_media').delete().eq('id', id)\<close>\<close>

definition table_delete :: "string \<Rightarrow> unit response \<Rightarrow> world \<Rightarrow> world" where
  "table_delete i r w =
     (case r of
        Error e \<Rightarrow> issue (TableDelete i) w
      | Data x \<Rightarrow> issue (TableDelete i)
          (w\<lparr>website_media := filter (\<lambda>row. id' row \<noteq> i) (website_media w)\<rparr>))"

text \<open>
  The table's answer to a read query: the rows that pass the filter, ordered by
  \<^verbatim>\<open>created_at\<close>, cut to the limit when the query has one.
\<close>

definition run_query :: "select_query \<Rightarrow> MediaItem list \<Rightarrow> MediaItem list" where
  "run_query q rows =
     (let matching = (case eq_mediatype q of
                        None \<Rightarrow> rows
                      | Some k \<Rightarrow> filter (\<lambda>row. mediatype row = k) rows);
          ordered = (if order_ascending q then sort_key created_at matching
                     else rev (sort_key created_at matching))
      in case limit q of None \<Rightarrow> ordered | Some n \<Rightarrow> take n ordered)"

definition table_select :: "select_query \<Rightarrow> unit response \<Rightarrow> world \<Rightarrow> MediaItem list response \<times> world" where
  "table_select q r w =
     (case r of
        Error e \<Rightarrow> (Error e, issue (TableSelect q) w)
      | Data u \<Rightarrow> (Data (run_query q (website_media w)), issue (TableSelect q) w))"

section \<open>Errors shown to the admin\<close>

text \<open>
  The handlers report a failure as a message (\<^verbatim>\<open>showNotification('error', ...)\<close> or
  \<^verbatim>\<open>setError(...)\<close>). The constructor names the step that failed, the argument is the
  message of the source. \<open>TypeError\<close> is the exception of a method call on
  \<^verbatim>\<open>undefined\<close> outside any guarded block.
\<close>

datatype error =
    ValidationError string
  | UploadError string
  | PersistError string
  | RemoteReadError string
  | TypeError string

text \<open>JavaScript truthiness of an optional string: \<^verbatim>\<open>null\<close> and \<^verbatim>\<open>''\<close> are falsy.\<close>

definition truthy :: "string option \<Rightarrow> bool" where
  "truthy s = (case s of None \<Rightarrow> False | Some v \<Rightarrow> v \<noteq> [])"

section \<open>Reading the catalog\<close>

text \<open>
  What a component keeps of a fetch: the snapshot \<^verbatim>\<open>mediaItems\<close>, the flag
  \<^verbatim>\<open>loading\<close> and the error it shows (\<^verbatim>\<open>setError\<close>, or the error notification
  of the first admin component).
\<close>

record view =
  mediaItems :: "MediaItem list"
  loading :: bool
  shown_error :: "string option"

text \<open>The queries of the four components; none calls \<^verbatim>\<open>limit\<close>.\<close>

definition videos_query :: select_query where
  "videos_query = \<lparr> eq_mediatype = Some video, order_ascending = False, limit = None \<rparr>"

definition work_query :: select_query where
  "work_query = \<lparr> eq_mediatype = Some artwork, order_ascending = False, limit = None \<rparr>"

definition admin_query :: select_query where
  "admin_query = \<lparr> eq_mediatype = None, order_ascending = False, limit = None \<rparr>"

text \<open>
  The part of each \<^verbatim>\<open>fetchMediaItems\<close> after the \<^verbatim>\<open>await\<close>: what the component
  does with the answer once it arrives.
\<close>

definition fetched_videos :: "MediaItem list response \<Rightarrow> view \<Rightarrow> view" where
  "fetched_videos r v =
     (case r of
        Error m \<Rightarrow> v\<lparr>shown_error := Some ''Failed to load videos''\<rparr>
      | Data d \<Rightarrow> v\<lparr>mediaItems := d, loading := False\<rparr>)"

definition fetched_work :: "MediaItem list response \<Rightarrow> view \<Rightarrow> view" where
  "fetched_work r v =
     (case r of
        Error m \<Rightarrow> v\<lparr>shown_error := Some ''Failed to load artworks''\<rparr>
      | Data d \<Rightarrow> v\<lparr>mediaItems := d, loading := False\<rparr>)"

definition fetched_admin :: "MediaItem list response \<Rightarrow> view \<Rightarrow> view" where
  "fetched_admin r v =
     (case r of
        Error m \<Rightarrow> v\<lparr>shown_error := Some ''Failed to load media items''\<rparr>
      | Data d \<Rightarrow> v\<lparr>mediaItems := d, loading := False\<rparr>)"

definition fetched_admin_v2 :: "MediaItem list response \<Rightarrow> view \<Rightarrow> view" where
  "fetched_admin_v2 r v =
     (case r of
        Error m \<Rightarrow> v\<lparr>shown_error := Some ''Failed to load media items''\<rparr>
      | Data d \<Rightarrow> v\<lparr>mediaItems := d\<rparr>)"

text \<open>
  The store side of a fetch: the select call, and the line on the console when it fails.
\<close>

definition refetch :: "select_query \<Rightarrow> env \<Rightarrow> world \<Rightarrow> world" where
  "refetch q e w =
     (let w' = snd (table_select q (select_rows e) w)
      in case select_rows e of
           Error m \<Rightarrow> console_error_log (''Error fetching media items: '' @ m) w'
         | Data u \<Rightarrow> w')"

text \<open>\<^verbatim>\<open>fetchMediaItems\<close> of VideosPageGallery, of WorkPageGallery and of the two admin components.\<close>

definition fetchMediaItems_videos :: "env \<Rightarrow> view \<times> world \<Rightarrow> view \<times> world" where
  "fetchMediaItems_videos e vw =
     (fetched_videos (fst (table_select videos_query (select_rows e) (snd vw))) (fst vw),
      refetch videos_query e (snd vw))"

definition fetchMediaItems_work :: "env \<Rightarrow> view \<times> world \<Rightarrow> view \<times> world" where
  "fetchMediaItems_work e vw =
     (fetched_work (fst (table_select work_query (select_rows e) (snd vw))) (fst vw),
      refetch work_query e (snd vw))"

definition fetchMediaItems :: "env \<Rightarrow> view \<times> world \<Rightarrow> view \<times> world" where
  "fetchMediaItems e vw =
     (fetched_admin (fst (table_select admin_query (select_rows e) (snd vw))) (fst vw),
      refetch admin_query e (snd vw))"

definition fetchMediaItems_v2 :: "env \<Rightarrow> view \<times> world \<Rightarrow> view \<times> world" where
  "fetchMediaItems_v2 e vw =
     (fetched_admin_v2 (fst (table_select admin_query (select_rows e) (snd vw))) (fst vw),
      refetch admin_query e (snd vw))"

text \<open>
  The client-side filters of the two galleries over their snapshot
  (\<^verbatim>\<open>videoItems\<close>, \<^verbatim>\<open>artworkItems\<close>).
\<close>

definition videoItems :: "MediaItem list \<Rightarrow> MediaItem list" where
  "videoItems items =
     filter (\<lambda>item. mediatype item = video \<or>
                     (isexternallink item = Some True \<and> type' item = ''video-link'')) items"

definition artworkItems :: "MediaItem list \<Rightarrow> MediaItem list" where
  "artworkItems items =
     filter (\<lambda>item. mediatype item = artwork \<or>
                     (isexternallink item = Some True \<and> type' item = ''image-link'')) items"

section \<open>Deleting\<close>

text \<open>
  First admin component, \<^verbatim>\<open>handleDelete(id, storagePath?)\<close>. The list refresh
  \<^verbatim>\<open>fetchMediaItems()\<close> that follows a success is \<open>refetch\<close>.
\<close>

definition handleDelete :: "string \<Rightarrow> string option \<Rightarrow> env \<Rightarrow> world \<Rightarrow> (error + string) \<times> world" where
  "handleDelete i storagePath e w =
     (let w1 = (if truthy storagePath
                then (let w' = storage_remove (the storagePath) (remove_main e) w
                      in case remove_main e of
                           Error m \<Rightarrow> console_error_log (''Error deleting from storage: '' @ m) w'
                         | Data u \<Rightarrow> w')
                else w);
          w2 = table_delete i (delete_row e) w1
      in case delete_row e of
           Error m \<Rightarrow>
             (Inl (PersistError ''Failed to delete media item''),
              console_error_log (''Error deleting media item: '' @ m) w2)
         | Data u \<Rightarrow>
             (Inr ''Media item deleted successfully'', refetch admin_query e w2))"

text \<open>
  Second admin component: the \<^verbatim>\<open>onConfirm\<close> callback that \<^verbatim>\<open>handleDeleteMedia(item)\<close>
  installs in the confirmation dialog.
\<close>

definition handleDeleteMedia :: "MediaItem \<Rightarrow> env \<Rightarrow> world \<Rightarrow> (error + string) \<times> world" where
  "handleDeleteMedia item e w =
     (let w1 = table_delete (id' item) (delete_row e) w
      in case delete_row e of
           Error m \<Rightarrow>
             (Inl (PersistError ''Failed to delete media. Please try again.''),
              console_error_log (''Database deletion error: '' @ m) w1)
         | Data u \<Rightarrow>
             (let w2 = (if isexternallink item \<noteq> Some True \<and> truthy (storagepath item)
                        then (let w' = storage_remove (the (storagepath item)) (remove_main e) w1
                              in case remove_main e of
                                   Error m \<Rightarrow> console_error_log (''Storage deletion error: '' @ m) w'
                                 | Data u \<Rightarrow> w')
                        else w1);
                  w3 = (if truthy (video_thumbnail_path item)
                        then (let w' = storage_remove (the (video_thumbnail_path item)) (remove_thumbnail e) w2
                              in case remove_thumbnail e of
                                   Error m \<Rightarrow> console_error_log (''Thumbnail deletion error: '' @ m) w'
                                 | Data u \<Rightarrow> w')
                        else w2)
              in (Inr [], w3)))"

section \<open>Strings\<close>

text \<open>
  The string operations of the source, on byte strings (ASCII): \<^verbatim>\<open>trim\<close>,
  \<^verbatim>\<open>toLowerCase\<close>, \<^verbatim>\<open>endsWith\<close>, the replacement
  \<^verbatim>\<open>replace(/[^a-zA-Z0-9.-]/g, '_')\<close> and the decimal digits of a number in a
  template string.
\<close>

definition is_space :: "char \<Rightarrow> bool" where
  "is_space c = (c \<in> set [CHR '' '', CHR 0x09, CHR 0x0A, CHR 0x0B, CHR 0x0C, CHR 0x0D])"

definition trim :: "string \<Rightarrow> string" where
  "trim s = rev (dropWhile is_space (rev (dropWhile is_space s)))"

definition toLowerCase :: "string \<Rightarrow> string" where
  "toLowerCase s =
     map (\<lambda>c. case map_of (zip ''ABCDEFGHIJKLMNOPQRSTUVWXYZ'' ''abcdefghijklmnopqrstuvwxyz'') c of
                None \<Rightarrow> c
              | Some l \<Rightarrow> l) s"

definition endsWith :: "string \<Rightarrow> string \<Rightarrow> bool" where
  "endsWith s suf = (length suf \<le> length s \<and> drop (length s - length suf) s = suf)"

definition safe_char :: "char \<Rightarrow> bool" where
  "safe_char c =
     (let n = (of_char c :: nat)
      in (97 \<le> n \<and> n \<le> 122) \<or> (65 \<le> n \<and> n \<le> 90) \<or> (48 \<le> n \<and> n \<le> 57)
         \<or> c = CHR ''.'' \<or> c = CHR ''-'')"

definition sanitize :: "string \<Rightarrow> string" where
  "sanitize s = map (\<lambda>c. if safe_char c then c else CHR ''_'') s"

fun show_nat :: "nat \<Rightarrow> string" where
  "show_nat n =
     (if n < 10 then [''0123456789'' ! n]
      else show_nat (n div 10) @ [''0123456789'' ! (n mod 10)])"

declare show_nat.simps [simp del]

section \<open>Validation\<close>

definition ALLOWED_IMAGE_TYPES :: "string list" where
  "ALLOWED_IMAGE_TYPES =
     [''image/jpeg'', ''image/jpg'', ''image/png'', ''image/gif'', ''image/webp'',
      ''image/svg+xml'', ''image/bmp'', ''image/tiff'']"

definition ALLOWED_VIDEO_TYPES :: "string list" where
  "ALLOWED_VIDEO_TYPES = [''video/mp4'', ''video/webm'', ''video/ogg'']"

definition ALL_ALLOWED_TYPES :: "string list" where
  "ALL_ALLOWED_TYPES = ALLOWED_IMAGE_TYPES @ ALLOWED_VIDEO_TYPES"

definition MAX_IMAGE_SIZE :: nat where
  "MAX_IMAGE_SIZE = 10 * 1024 * 1024"

definition MAX_VIDEO_SIZE :: nat where
  "MAX_VIDEO_SIZE = 100 * 1024 * 1024"

definition MAX_THUMBNAIL_SIZE :: nat where
  "MAX_THUMBNAIL_SIZE = 5 * 1024 * 1024"

text \<open>\<^verbatim>\<open>{ isValid: boolean; error?: string }\<close>\<close>

datatype validation = Valid | Invalid string

text \<open>
  \<^verbatim>\<open>validateFile(file, isThumbail = false)\<close> of the second admin component. It reads the
  file only: the tab the admin is on (the kind of the upload) is not an argument.
\<close>

definition validateFile :: "File \<Rightarrow> bool \<Rightarrow> validation" where
  "validateFile file isThumbail =
     (if isThumbail then
        (if file_type file \<notin> set ALLOWED_IMAGE_TYPES then
           Invalid ''Thumbnail must be an image. Supported formats: JPG, PNG, GIF, WebP.''
         else if file_size file > MAX_THUMBNAIL_SIZE then
           Invalid ''Thumbnail file too large. Maximum size is 5MB.''
         else Valid)
      else if file_type file \<notin> set ALL_ALLOWED_TYPES then
        Invalid (''Unsupported file type: '' @ file_type file @
                 ''. Please select a valid image or video file.'')
      else
        (let isImage = (file_type file \<in> set ALLOWED_IMAGE_TYPES);
             isVideo = (file_type file \<in> set ALLOWED_VIDEO_TYPES)
         in if isImage \<and> file_size file > MAX_IMAGE_SIZE then
              Invalid ''Image file too large. Maximum size is 10MB.''
            else if isVideo \<and> file_size file > MAX_VIDEO_SIZE then
              Invalid ''Video file too large. Maximum size is 100MB.''
            else if isVideo then
              (let fileName = toLowerCase (file_name file)
               in if file_type file = ''video/mp4'' \<and> \<not> endsWith fileName ''.mp4'' then
                    Invalid ''File extension does not match the video format. Please ensure the file is properly encoded.''
                  else if file_type file = ''video/webm'' \<and> \<not> endsWith fileName ''.webm'' then
                    Invalid ''File extension does not match the video format. Please ensure the file is properly encoded.''
                  else if file_type file = ''video/ogg'' \<and> \<not> endsWith fileName ''.ogg''
                          \<and> \<not> endsWith fileName ''.ogv'' then
                    Invalid ''File extension does not match the video format. Please ensure the file is properly encoded.''
                  else Valid)
            else Valid))"

text \<open>\<^verbatim>\<open>validateUrl(url)\<close>: valid when \<^verbatim>\<open>new URL(url)\<close> does not throw.\<close>

definition validateUrl :: "env \<Rightarrow> string \<Rightarrow> validation" where
  "validateUrl e u = (if url_parses e u then Valid else Invalid ''Please enter a valid URL'')"

section \<open>Uploading a file\<close>

text \<open>\<^verbatim>\<open>uploadForm\<close>, the form state of the first admin component.\<close>

record UploadForm =
  uf_file :: "File option"
  uf_thumbnailFile :: "File option"
  uf_title :: string
  uf_description :: string
  uf_type_detail :: string
  uf_mediatype :: media_kind
  uf_isExternalLink :: bool
  uf_externalUrl :: string

text \<open>\<^verbatim>\<open>newMedia\<close>, the form state of the second admin component.\<close>

record NewMedia =
  nm_title :: string
  nm_description :: string
  nm_type_detail :: string
  nm_externalUrl :: string
  nm_linkType :: link_type
  nm_file :: "File option"
  nm_thumbnailFile :: "File option"

text \<open>JavaScript \<^verbatim>\<open>a || b\<close> on strings.\<close>

definition or_else :: "string \<Rightarrow> string \<Rightarrow> string" where
  "or_else a b = (if a = [] then b else a)"

text \<open>
  First admin component, \<^verbatim>\<open>handleFileUpload\<close>: no validation of type or size; upload
  of the main file, of the thumbnail of a video, then the insert. A failed thumbnail
  upload also shows a notification, which the final notification replaces.
\<close>

definition handleFileUpload :: "UploadForm \<Rightarrow> env \<Rightarrow> world \<Rightarrow> (error + string) \<times> world" where
  "handleFileUpload uploadForm e w =
     (case uf_file uploadForm of
        None \<Rightarrow> (Inl (ValidationError ''Please select a file to upload''), w)
      | Some file \<Rightarrow>
         (let fileName = show_nat (now e) @ ''_'' @ file_name file;
              filePath = (if uf_mediatype uploadForm = video then ''videos/'' @ fileName
                          else ''images/'' @ fileName);
              w1 = storage_upload filePath file (upload_main e) w
          in case upload_main e of
               Error m \<Rightarrow>
                 (Inl (UploadError (''Upload failed: '' @ m)),
                  console_error_log (''Error uploading file: '' @ m) w1)
             | Data u \<Rightarrow>
                 (let (thumbnailUrl, thumbnailPath, w2) =
                        (case uf_thumbnailFile uploadForm of
                           None \<Rightarrow> (None, None, w1)
                         | Some thumbnailFile \<Rightarrow>
                             if uf_mediatype uploadForm = video then
                               (let thumbnailFilePath =
                                      ''thumbnails/'' @ show_nat (now_thumbnail e) @ ''_thumbnail_''
                                        @ file_name thumbnailFile;
                                    w' = storage_upload thumbnailFilePath thumbnailFile
                                           (upload_thumbnail e) w1
                                in case upload_thumbnail e of
                                     Error m \<Rightarrow>
                                       (None, None,
                                        console_error_log (''Error uploading thumbnail: '' @ m) w')
                                   | Data u \<Rightarrow>
                                       (Some (public_url e thumbnailFilePath),
                                        Some thumbnailFilePath, w'))
                             else (None, None, w1));
                      mediaData =
                        \<lparr> doc_name = file_name file,
                          doc_url = public_url e filePath,
                          doc_type = file_type file,
                          doc_title = or_else (uf_title uploadForm) (file_name file),
                          doc_description = or_else (uf_description uploadForm) [],
                          doc_type_detail = or_else (uf_type_detail uploadForm) [],
                          doc_mediatype = uf_mediatype uploadForm,
                          doc_isexternallink = False,
                          doc_storagepath = Some filePath,
                          doc_video_thumbnail_url = thumbnailUrl,
                          doc_video_thumbnail_path = thumbnailPath \<rparr>;
                      w3 = table_insert mediaData (insert_row e) w2
                  in case insert_row e of
                       Error m \<Rightarrow>
                         (Inl (PersistError (''Database error: '' @ m)),
                          console_error_log (''Error saving to database: '' @ m) w3)
                     | Data it \<Rightarrow>
                         (Inr ''File uploaded successfully'', refetch admin_query e w3))))"

text \<open>
  Second admin component, \<^verbatim>\<open>handleFileUpload\<close>; \<open>activeTab\<close> is the tab the admin is
  on. The change notification of the table, not the handler, refreshes the list.
\<close>

definition kind_string :: "media_kind \<Rightarrow> string" where
  "kind_string k = (case k of artwork \<Rightarrow> ''artwork'' | video \<Rightarrow> ''video'')"

definition handleFileUpload_v2 :: "NewMedia \<Rightarrow> media_kind \<Rightarrow> env \<Rightarrow> world \<Rightarrow> (error + string) \<times> world" where
  "handleFileUpload_v2 newMedia activeTab e w =
     (case nm_file newMedia of
        None \<Rightarrow> (Inl (ValidationError ''Please provide a title and select a file''), w)
      | Some file \<Rightarrow>
         if trim (nm_title newMedia) = [] then
           (Inl (ValidationError ''Please provide a title and select a file''), w)
         else
           (case validateFile file False of
              Invalid m \<Rightarrow> (Inl (ValidationError m), w)
            | Valid \<Rightarrow>
               (case (case nm_thumbnailFile newMedia of
                        None \<Rightarrow> Valid
                      | Some thumbnailFile \<Rightarrow> validateFile thumbnailFile True) of
                  Invalid m \<Rightarrow> (Inl (ValidationError m), w)
                | Valid \<Rightarrow>
                   (let timestamp = now e;
                        sanitizedFileName = sanitize (file_name file);
                        fileName = kind_string activeTab @ ''s/'' @ show_nat timestamp @ ''_''
                                     @ sanitizedFileName;
                        w1 = storage_upload fileName file (upload_main e) w
                    in case upload_main e of
                         Error m \<Rightarrow>
                           (Inl (UploadError (''Upload failed: '' @ m)),
                            console_error_log (''Upload error: '' @ m) w1)
                       | Data u \<Rightarrow>
                           (let publicUrl = public_url e fileName;
                                (thumbnailUrl, thumbnailPath, w2) =
                                  (case nm_thumbnailFile newMedia of
                                     None \<Rightarrow> (None, None, w1)
                                   | Some thumbnailFile \<Rightarrow>
                                       if activeTab = video then
                                         (let thumbnailFileName =
                                                ''thumbnails/'' @ show_nat timestamp @ ''_''
                                                  @ sanitize (file_name thumbnailFile);
                                              w' = storage_upload thumbnailFileName thumbnailFile
                                                     (upload_thumbnail e) w1
                                          in case upload_thumbnail e of
                                               Error m \<Rightarrow>
                                                 (None, None,
                                                  console_error_log
                                                    (''Thumbnail upload error: '' @ m) w')
                                             | Data u \<Rightarrow>
                                                 (Some (public_url e thumbnailFileName),
                                                  Some thumbnailFileName, w'))
                                       else (None, None, w1));
                                mediaType = (if activeTab = artwork then artwork else video);
                                mediaDoc =
                                  \<lparr> doc_name = sanitizedFileName,
                                    doc_url = publicUrl,
                                    doc_type = file_type file,
                                    doc_title = trim (nm_title newMedia),
                                    doc_description = trim (nm_description newMedia),
                                    doc_type_detail = (if activeTab = artwork
                                                       then trim (nm_type_detail newMedia) else []),
                                    doc_mediatype = mediaType,
                                    doc_isexternallink = False,
                                    doc_storagepath = Some fileName,
                                    doc_video_thumbnail_url = thumbnailUrl,
                                    doc_video_thumbnail_path = thumbnailPath \<rparr>;
                                w3 = table_insert mediaDoc (insert_row e) w2
                            in case insert_row e of
                                 Error m \<Rightarrow>
                                   (Inl (PersistError
                                           ''Failed to save media metadata. Please try again.''),
                                    console_error_log (''Database error: '' @ m) w3)
                               | Data it \<Rightarrow> (Inr ''Media uploaded successfully!'', w3))))))"

section \<open>Adding an external link\<close>

text \<open>First admin component, \<^verbatim>\<open>handleExternalLinkUpload\<close>.\<close>

definition handleExternalLinkUpload :: "UploadForm \<Rightarrow> env \<Rightarrow> world \<Rightarrow> (error + string) \<times> world" where
  "handleExternalLinkUpload uploadForm e w =
     (if uf_externalUrl uploadForm = [] then
        (Inl (ValidationError ''Please enter a valid URL''), w)
      else
        (let mediaData =
               \<lparr> doc_name = or_else (uf_title uploadForm) ''External Link'',
                 doc_url = uf_externalUrl uploadForm,
                 doc_type = (if uf_mediatype uploadForm = video then ''video-link''
                             else ''image-link''),
                 doc_title = or_else (uf_title uploadForm) ''External Link'',
                 doc_description = or_else (uf_description uploadForm) [],
                 doc_type_detail = or_else (uf_type_detail uploadForm) [],
                 doc_mediatype = uf_mediatype uploadForm,
                 doc_isexternallink = True,
                 doc_storagepath = None,
                 doc_video_thumbnail_url = None,
                 doc_video_thumbnail_path = None \<rparr>;
             w1 = table_insert mediaData (insert_row e) w
         in case insert_row e of
              Error m \<Rightarrow>
                (Inl (PersistError (''Database error: '' @ m)),
                 console_error_log (''Error saving external link: '' @ m) w1)
            | Data it \<Rightarrow>
                (Inr ''External link added successfully'', refetch admin_query e w1)))"

text \<open>
  Second admin component, \<^verbatim>\<open>handleLinkSubmission\<close>. The kind of the record comes from
  the tab, the tag in \<^verbatim>\<open>type\<close> from the form's \<^verbatim>\<open>linkType\<close>.
\<close>

definition handleLinkSubmission :: "NewMedia \<Rightarrow> media_kind \<Rightarrow> env \<Rightarrow> world \<Rightarrow> (error + string) \<times> world" where
  "handleLinkSubmission newMedia activeTab e w =
     (if trim (nm_externalUrl newMedia) = [] \<or> trim (nm_title newMedia) = [] then
        (Inl (ValidationError ''Please provide a title and URL''), w)
      else
        (case validateUrl e (trim (nm_externalUrl newMedia)) of
           Invalid m \<Rightarrow> (Inl (ValidationError m), w)
         | Valid \<Rightarrow>
            (let mediaType = (if activeTab = artwork then artwork else video);
                 linkTypePrefix = (if nm_linkType newMedia = LinkImage then ''image'' else ''video'');
                 mediaDoc =
                   \<lparr> doc_name = trim (nm_title newMedia),
                     doc_url = trim (nm_externalUrl newMedia),
                     doc_type = linkTypePrefix @ ''-link'',
                     doc_title = trim (nm_title newMedia),
                     doc_description = trim (nm_description newMedia),
                     doc_type_detail = (if activeTab = artwork
                                        then trim (nm_type_detail newMedia) else []),
                     doc_mediatype = mediaType,
                     doc_isexternallink = True,
                     doc_storagepath = None,
                     doc_video_thumbnail_url = None,
                     doc_video_thumbnail_path = None \<rparr>;
                 w1 = table_insert mediaDoc (insert_row e) w
             in case insert_row e of
                  Error m \<Rightarrow>
                    (Inl (PersistError ''Failed to save link. Please try again.''),
                     console_error_log (''Database error: '' @ m) w1)
                | Data it \<Rightarrow> (Inr ''Link saved successfully!'', w1))))"

section \<open>Editing\<close>

text \<open>
  \<^verbatim>\<open>editForm: Partial<MediaItem>\<close> of the first admin component: the four keys the
  handler reads, \<open>None\<close> for a key that is \<^verbatim>\<open>undefined\<close>.
\<close>

record EditForm =
  ef_title :: "string option"
  ef_description :: "string option"
  ef_type_detail :: "string option"
  ef_name :: "string option"

text \<open>The object \<^verbatim>\<open>updateData\<close> that \<^verbatim>\<open>handleUpdate(id)\<close> builds key by key.\<close>

definition updateData_of :: "EditForm \<Rightarrow> UpdateData" where
  "updateData_of editForm =
     \<lparr> upd_title = ef_title editForm,
       upd_description = ef_description editForm,
       upd_type_detail = ef_type_detail editForm,
       upd_name = ef_name editForm \<rparr>"

definition handleUpdate :: "string \<Rightarrow> EditForm \<Rightarrow> env \<Rightarrow> world \<Rightarrow> (error + string) \<times> world" where
  "handleUpdate i editForm e w =
     (let updateData = updateData_of editForm;
          w1 = table_update i updateData (update_row e) w
      in case update_row e of
           Error m \<Rightarrow>
             (Inl (PersistError (''Failed to update: '' @ m)),
              console_error_log (''Error updating media item: '' @ m) w1)
         | Data u \<Rightarrow>
             (Inr ''Media item updated successfully'', refetch admin_query e w1))"

text \<open>
  The object \<^verbatim>\<open>updateData\<close> of \<^verbatim>\<open>handleUpdateMedia\<close>: always the three keys, each
  trimmed, \<^verbatim>\<open>description?.trim() || ''\<close> being the empty string for a missing value.
\<close>

definition updateData_v2 :: "string \<Rightarrow> MediaItem \<Rightarrow> UpdateData" where
  "updateData_v2 t editingItem =
     \<lparr> upd_title = Some (trim t),
       upd_description = Some (case description editingItem of
                                 None \<Rightarrow> []
                               | Some d \<Rightarrow> or_else (trim d) []),
       upd_type_detail = Some (case type_detail editingItem of
                                 None \<Rightarrow> []
                               | Some d \<Rightarrow> or_else (trim d) []),
       upd_name = None \<rparr>"

text \<open>
  Second admin component, \<^verbatim>\<open>handleUpdateMedia\<close>; \<open>editingItem\<close> is the record being
  edited, with the changes the admin typed. The guard calls \<^verbatim>\<open>editingItem.title.trim()\<close>
  ahead of the guarded block, which throws when the title is missing.
\<close>

definition handleUpdateMedia :: "MediaItem option \<Rightarrow> env \<Rightarrow> world \<Rightarrow> (error + string) \<times> world" where
  "handleUpdateMedia editingItem e w =
     (case editingItem of
        None \<Rightarrow> (Inl (ValidationError ''Please provide a title''), w)
      | Some item \<Rightarrow>
         (case title item of
            None \<Rightarrow> (Inl (TypeError ''editingItem.title is undefined''), w)
          | Some t \<Rightarrow>
             if trim t = [] then (Inl (ValidationError ''Please provide a title''), w)
             else
               (let updateData = updateData_v2 t item;
                    w1 = table_update (id' item) updateData (update_row e) w
                in case update_row e of
                     Error m \<Rightarrow>
                       (Inl (PersistError ''Failed to update media. Please try again.''),
                        console_error_log (''Update error: '' @ m) w1)
                   | Data u \<Rightarrow> (Inr ''Media updated successfully!'', w1))))"



section \<open>Reading the trace\<close>

text \<open>
  The calls of one sort in the trace of a world, in the order they were issued, and the
  columns of a row that no edit is meant to touch.
\<close>

definition inserts :: "world \<Rightarrow> MediaDoc list" where
  "inserts w = concat (map (\<lambda>c. case c of TableInsert d \<Rightarrow> [d] | _ \<Rightarrow> []) (calls w))"

definition uploads :: "world \<Rightarrow> string list" where
  "uploads w = concat (map (\<lambda>c. case c of StorageUpload p \<Rightarrow> [p] | _ \<Rightarrow> []) (calls w))"


definition updates :: "world \<Rightarrow> (string \<times> UpdateData) list" where
  "updates w = concat (map (\<lambda>c. case c of TableUpdate i u \<Rightarrow> [(i, u)] | _ \<Rightarrow> []) (calls w))"

definition frame :: "MediaItem \<Rightarrow> string \<times> string \<times> string \<times> nat \<times> media_kind \<times> bool option
                       \<times> string option \<times> string option \<times> string option" where
  "frame r = (id' r, url r, type' r, created_at r, mediatype r, isexternallink r,
              storagepath r, video_thumbnail_url r, video_thumbnail_path r)"

section \<open>Answers arriving out of order\<close>

text \<open>
  An arrival is the answer of one fetch, paired with the position of that fetch in the
  order in which the fetches were started. The components keep no such number: the
  continuation of \<^verbatim>\<open>fetchMediaItems\<close> sees the answer only.
\<close>

type_synonym arrival = "nat \<times> MediaItem list response"

definition arrive_videos :: "view \<Rightarrow> arrival \<Rightarrow> view" where
  "arrive_videos v a = fetched_videos (snd a) v"

definition arrive_work :: "view \<Rightarrow> arrival \<Rightarrow> view" where
  "arrive_work v a = fetched_work (snd a) v"

text \<open>The data of the last arrival that carries data.\<close>

fun latest_data :: "arrival list \<Rightarrow> MediaItem list option" where
  "latest_data [] = None"
| "latest_data (a # as) =
     (case latest_data as of
        Some d \<Rightarrow> Some d
      | None \<Rightarrow> (case snd a of Data d \<Rightarrow> Some d | Error m \<Rightarrow> None))"

section \<open>Sequences of admin operations\<close>

text \<open>One operation of either admin component, with the arguments of its handler.\<close>

datatype admin_op =
    FileUpload UploadForm
  | ExternalLinkUpload UploadForm
  | Update string EditForm
  | Delete string "string option"
  | FileUpload_v2 NewMedia media_kind
  | LinkSubmission NewMedia media_kind
  | UpdateMedia "MediaItem option"
  | DeleteMedia MediaItem

fun perform :: "admin_op \<Rightarrow> env \<Rightarrow> world \<Rightarrow> world" where
  "perform (FileUpload f) e w = snd (handleFileUpload f e w)"
| "perform (ExternalLinkUpload f) e w = snd (handleExternalLinkUpload f e w)"
| "perform (Update i f) e w = snd (handleUpdate i f e w)"
| "perform (Delete i p) e w = snd (handleDelete i p e w)"
| "perform (FileUpload_v2 n k) e w = snd (handleFileUpload_v2 n k e w)"
| "perform (LinkSubmission n k) e w = snd (handleLinkSubmission n k e w)"
| "perform (UpdateMedia item) e w = snd (handleUpdateMedia item e w)"
| "perform (DeleteMedia item) e w = snd (handleDeleteMedia item e w)"

fun perform_all :: "(admin_op \<times> env) list \<Rightarrow> world \<Rightarrow> world" where
  "perform_all [] w = w"
| "perform_all (oe # rest) w = perform_all rest (perform (fst oe) (snd oe) w)"

text \<open>Rows flagged as external links carry no storage path and no thumbnail path.\<close>

definition links_have_no_paths :: "MediaItem list \<Rightarrow> bool" where
  "links_have_no_paths rows =
     (\<forall>r \<in> set rows. isexternallink r = Some True \<longrightarrow>
                       storagepath r = None \<and> video_thumbnail_path r = None)"

text \<open>Rows whose title, description and type_detail all hold a string.\<close>

definition columns_present :: "MediaItem list \<Rightarrow> bool" where
  "columns_present rows =
     (\<forall>r \<in> set rows. title r \<noteq> None \<and> description r \<noteq> None \<and> type_detail r \<noteq> None)"

section \<open>Sample data\<close>

text \<open>
  Concrete files, rows, forms and service answers for the scenarios below: an environment
  in which every call succeeds, the empty catalog and bucket, a 2 MB PNG, videos of 50 MB
  and 150 MB, a 1 MB thumbnail, and a few catalog rows.
\<close>

definition all_succeed :: env where
  "all_succeed =
     \<lparr> now = 1751800000000, now_thumbnail = 1751800000001,
       upload_main = Data (), upload_thumbnail = Data (),
       insert_row = Data (''7f3c'', 20), update_row = Data (), delete_row = Data (),
       remove_main = Data (), remove_thumbnail = Data (), select_rows = Data (),
       public_url = (\<lambda>p. ''https://cdn.example/media/'' @ p),
       url_parses = (\<lambda>s. take 8 s = ''https://'') \<rparr>"

definition empty_world :: world where
  "empty_world = \<lparr> website_media = [], media_bucket = [], calls = [], console_error = [] \<rparr>"

definition loading_view :: view where
  "loading_view = \<lparr> mediaItems = [], loading = True, shown_error = None \<rparr>"

definition png_2mb :: File where
  "png_2mb = \<lparr> file_name = ''dawn.png'', file_type = ''image/png'', file_size = 2 * 1024 * 1024 \<rparr>"

definition png_1mb :: File where
  "png_1mb = \<lparr> file_name = ''cover.png'', file_type = ''image/png'', file_size = 1024 * 1024 \<rparr>"

definition mp4_50mb :: File where
  "mp4_50mb = \<lparr> file_name = ''reel.mp4'', file_type = ''video/mp4'', file_size = 50 * 1024 * 1024 \<rparr>"

definition mp4_150mb :: File where
  "mp4_150mb = \<lparr> file_name = ''reel.mp4'', file_type = ''video/mp4'', file_size = 150 * 1024 * 1024 \<rparr>"

definition blank_form :: NewMedia where
  "blank_form =
     \<lparr> nm_title = [], nm_description = [], nm_type_detail = [], nm_externalUrl = [],
       nm_linkType = LinkImage, nm_file = None, nm_thumbnailFile = None \<rparr>"

definition blank_uploadForm :: UploadForm where
  "blank_uploadForm =
     \<lparr> uf_file = None, uf_thumbnailFile = None, uf_title = [], uf_description = [],
       uf_type_detail = [], uf_mediatype = artwork, uf_isExternalLink = False,
       uf_externalUrl = [] \<rparr>"

definition link_form :: NewMedia where
  "link_form = blank_form\<lparr>nm_title := ''Clip'',
                           nm_externalUrl := ''https://youtube.com/watch?v=abc12345678''\<rparr>"

definition retitle :: EditForm where
  "retitle = \<lparr> ef_title = Some ''Clip 2'', ef_description = None, ef_type_detail = None,
                ef_name = None \<rparr>"

definition dawn_row :: MediaItem where
  "dawn_row =
     \<lparr> id' = ''a1'', name = ''dawn.png'', url = ''https://cdn.example/media/images/1_dawn.png'',
       type' = ''image/png'', created_at = 10, title = Some ''Dawn'', description = Some [],
       type_detail = Some ''painting'', mediatype = artwork, isexternallink = Some False,
       storagepath = Some ''images/1_dawn.png'', video_thumbnail_url = None,
       video_thumbnail_path = None \<rparr>"

definition reel_row :: MediaItem where
  "reel_row =
     \<lparr> id' = ''c3'', name = ''reel.mp4'', url = ''https://cdn.example/media/videos/3_reel.mp4'',
       type' = ''video/mp4'', created_at = 30, title = Some ''Reel'', description = Some [],
       type_detail = Some [], mediatype = video, isexternallink = Some False,
       storagepath = Some ''videos/3_reel.mp4'', video_thumbnail_url = None,
       video_thumbnail_path = None \<rparr>"

definition clip_row :: MediaItem where
  "clip_row =
     \<lparr> id' = ''d4'', name = ''Clip'', url = ''https://youtube.com/watch?v=abc12345678'',
       type' = ''video-link'', created_at = 12, title = Some ''Clip'', description = Some [],
       type_detail = Some [], mediatype = video, isexternallink = Some True,
       storagepath = None, video_thumbnail_url = None, video_thumbnail_path = None \<rparr>"

definition clip_link_row :: MediaItem where
  "clip_link_row =
     \<lparr> id' = ''7f3c'', name = ''Clip'', url = ''https://youtube.com/watch?v=abc12345678'',
       type' = ''image-link'', created_at = 20, title = Some ''Clip'', description = Some [],
       type_detail = Some [], mediatype = video, isexternallink = Some True,
       storagepath = None, video_thumbnail_url = None, video_thumbnail_path = None \<rparr>"

section \<open>Properties\<close>

lemmas store_defs = storage_upload_def storage_remove_def table_insert_def table_update_def
  table_delete_def table_select_def issue_def console_error_log_def refetch_def


lemma handleDeleteMedia_row_first:
  "\<exists>rest. calls (snd (handleDeleteMedia item e w)) = calls w @ TableDelete (id' item) # rest"
  by (cases "delete_row e"; cases "remove_main e"; cases "remove_thumbnail e")
     (simp_all add: handleDeleteMedia_def store_defs Let_def)

text \<open>
  The first admin component issues the storage removal ahead of the row delete whenever a
  storage path is passed.
\<close>

lemma handleDelete_storage_first:
  assumes "truthy storagePath"
  shows "\<exists>rest. calls (snd (handleDelete i storagePath e w))
                 = calls w @ StorageRemove (the storagePath) # TableDelete i # rest"
  using assms
  by (cases "delete_row e"; cases "remove_main e"; cases "select_rows e")
     (simp_all add: handleDelete_def store_defs Let_def)

text \<open>
  Claim C1 (every delete removes the catalog row first, and a failed row delete aborts
  with no storage deletion attempted). \<^verbatim>\<open>handleDelete\<close> of the first admin component
  does the opposite: it removes the blob, then asks the table to delete the row. Here the
  table rejects the delete: the row \<open>dawn_row\<close> stays in the catalog, its blob is gone,
  and the trace shows the storage removal before the row delete.
\<close>

theorem handleDelete_removes_blob_then_fails:
  "handleDelete ''a1'' (Some ''images/1_dawn.png'') (all_succeed\<lparr>delete_row := Error ''permission denied''\<rparr>)
     (empty_world\<lparr>website_media := [dawn_row], media_bucket := [(''images/1_dawn.png'', png_2mb)]\<rparr>)
   = (Inl (PersistError ''Failed to delete media item''),
      \<lparr> website_media = [dawn_row], media_bucket = [],
        calls = [StorageRemove ''images/1_dawn.png'', TableDelete ''a1''],
        console_error = [''Error deleting media item: permission denied''] \<rparr>)"
  by (simp add: handleDelete_def store_defs truthy_def all_succeed_def empty_world_def)

lemma validateFile_rejects:
  assumes "file_type file \<notin> set ALL_ALLOWED_TYPES
           \<or> (file_type file \<in> set ALLOWED_IMAGE_TYPES \<and> file_size file > MAX_IMAGE_SIZE)
           \<or> (file_type file \<in> set ALLOWED_VIDEO_TYPES \<and> file_size file > MAX_VIDEO_SIZE)"
  shows "\<exists>m. validateFile file False = Invalid m"
  using assms by (auto simp: validateFile_def Let_def)

text \<open>
  Claim C2, as the code has it. In the second admin component a main file whose type is
  outside \<open>ALL_ALLOWED_TYPES\<close>, or whose size exceeds the ceiling of its own type (10 MB for
  an image type, 100 MB for a video type), ends the upload with a validation error and an
  unchanged world: no call in the trace, no blob, no row. The tab plays no part.
\<close>

theorem invalid_main_file_stops_before_network_v2:
  assumes "nm_file newMedia = Some file"
    and "file_type file \<notin> set ALL_ALLOWED_TYPES
         \<or> (file_type file \<in> set ALLOWED_IMAGE_TYPES \<and> file_size file > MAX_IMAGE_SIZE)
         \<or> (file_type file \<in> set ALLOWED_VIDEO_TYPES \<and> file_size file > MAX_VIDEO_SIZE)"
  shows "\<exists>m. handleFileUpload_v2 newMedia activeTab e w = (Inl (ValidationError m), w)"
proof -
  from validateFile_rejects [OF assms(2)] obtain m where "validateFile file False = Invalid m" ..
  with assms(1) show ?thesis by (simp add: handleFileUpload_v2_def)
qed

text \<open>
  A video of 150 MB on the video tab is refused before any call.
\<close>

theorem invalid_main_file_stops_before_network_v2_witness:
  "\<exists>m. handleFileUpload_v2 (blank_form\<lparr>nm_title := ''Reel'', nm_file := Some mp4_150mb\<rparr>) video
          all_succeed empty_world = (Inl (ValidationError m), empty_world)"
  using invalid_main_file_stops_before_network_v2
    [of "blank_form\<lparr>nm_title := ''Reel'', nm_file := Some mp4_150mb\<rparr>" mp4_150mb video all_succeed empty_world]
  by (simp add: blank_form_def mp4_150mb_def ALLOWED_VIDEO_TYPES_def MAX_VIDEO_SIZE_def)

text \<open>
  Claim C2 as stated fails. On the artwork tab a \<^verbatim>\<open>video/mp4\<close> file of 50 MB is neither
  of an image type nor within the 10 MB of artwork, yet \<^verbatim>\<open>validateFile\<close> accepts it: the
  blob is written under \<^verbatim>\<open>artworks/\<close> and a row of kind artwork is inserted. The first
  admin component validates nothing: its upload of a 150 MB video goes through.
\<close>

theorem upload_of_wrong_kind_or_size_goes_through:
  "file_type mp4_50mb \<notin> set ALLOWED_IMAGE_TYPES \<and> file_size mp4_50mb > MAX_IMAGE_SIZE
   \<and> fst (handleFileUpload_v2 (blank_form\<lparr>nm_title := ''Reel'', nm_file := Some mp4_50mb\<rparr>) artwork
             all_succeed empty_world) = Inr ''Media uploaded successfully!''
   \<and> map fst (media_bucket (snd (handleFileUpload_v2 (blank_form\<lparr>nm_title := ''Reel'', nm_file := Some mp4_50mb\<rparr>) artwork
             all_succeed empty_world))) = [''artworks/1751800000000_reel.mp4'']
   \<and> map mediatype (website_media (snd (handleFileUpload_v2 (blank_form\<lparr>nm_title := ''Reel'', nm_file := Some mp4_50mb\<rparr>) artwork
             all_succeed empty_world))) = [artwork]
   \<and> fst (handleFileUpload (blank_uploadForm\<lparr>uf_file := Some mp4_150mb, uf_mediatype := video\<rparr>)
             all_succeed empty_world) = Inr ''File uploaded successfully''
   \<and> map fst (media_bucket (snd (handleFileUpload (blank_uploadForm\<lparr>uf_file := Some mp4_150mb, uf_mediatype := video\<rparr>)
             all_succeed empty_world))) = [''videos/1751800000000_reel.mp4'']"
  by (simp add: handleFileUpload_v2_def handleFileUpload_def validateFile_def blank_form_def
      blank_uploadForm_def mp4_50mb_def mp4_150mb_def all_succeed_def empty_world_def store_defs
      ALLOWED_IMAGE_TYPES_def ALLOWED_VIDEO_TYPES_def ALL_ALLOWED_TYPES_def MAX_IMAGE_SIZE_def
      MAX_VIDEO_SIZE_def trim_def is_space_def toLowerCase_def endsWith_def sanitize_def
      safe_char_def kind_string_def show_nat.simps row_of_def or_else_def Let_def)

lemma inserts_simps [simp]:
  "inserts (issue (TableInsert d) w) = inserts w @ [d]"
  "inserts (issue (StorageUpload p) w) = inserts w"
  "inserts (issue (StorageRemove p) w) = inserts w"
  "inserts (issue (TableUpdate i u) w) = inserts w"
  "inserts (issue (TableDelete i) w) = inserts w"
  "inserts (issue (TableSelect q) w) = inserts w"
  "inserts (console_error_log m w) = inserts w"
  "inserts (w\<lparr>media_bucket := b\<rparr>) = inserts w"
  "inserts (w\<lparr>website_media := rows\<rparr>) = inserts w"
  by (simp_all add: inserts_def issue_def console_error_log_def)

lemma issue_fields [simp]:
  "website_media (issue c w) = website_media w"
  "media_bucket (issue c w) = media_bucket w"
  "console_error (issue c w) = console_error w"
  "calls (issue c w) = calls w @ [c]"
  by (simp_all add: issue_def)

lemma console_error_log_fields [simp]:
  "website_media (console_error_log m w) = website_media w"
  "media_bucket (console_error_log m w) = media_bucket w"
  "console_error (console_error_log m w) = console_error w @ [m]"
  "calls (console_error_log m w) = calls w"
  by (simp_all add: console_error_log_def)

lemma uploads_simps [simp]:
  "uploads (issue (StorageUpload p) w) = uploads w @ [p]"
  "uploads (issue (TableInsert d) w) = uploads w"
  "uploads (issue (StorageRemove p) w) = uploads w"
  "uploads (issue (TableUpdate i u) w) = uploads w"
  "uploads (issue (TableDelete i) w) = uploads w"
  "uploads (issue (TableSelect q) w) = uploads w"
  "uploads (console_error_log m w) = uploads w"
  "uploads (w\<lparr>media_bucket := b\<rparr>) = uploads w"
  "uploads (w\<lparr>website_media := rows\<rparr>) = uploads w"
  by (simp_all add: uploads_def issue_def console_error_log_def)

lemma handleFileUpload_upload_fails:
  assumes "upload_main e = Error m"
  shows "website_media (snd (handleFileUpload uploadForm e w)) = website_media w"
    and "media_bucket (snd (handleFileUpload uploadForm e w)) = media_bucket w"
    and "inserts (snd (handleFileUpload uploadForm e w)) = inserts w"
    and "uploads (snd (handleFileUpload uploadForm e w)) \<noteq> uploads w \<Longrightarrow>
         fst (handleFileUpload uploadForm e w) = Inl (UploadError (''Upload failed: '' @ m))"
  using assms
  by (auto simp: handleFileUpload_def storage_upload_def Let_def split: option.splits)

lemma handleFileUpload_v2_upload_fails:
  assumes "upload_main e = Error m"
  shows "website_media (snd (handleFileUpload_v2 newMedia activeTab e w)) = website_media w"
    and "media_bucket (snd (handleFileUpload_v2 newMedia activeTab e w)) = media_bucket w"
    and "inserts (snd (handleFileUpload_v2 newMedia activeTab e w)) = inserts w"
    and "uploads (snd (handleFileUpload_v2 newMedia activeTab e w)) \<noteq> uploads w \<Longrightarrow>
         fst (handleFileUpload_v2 newMedia activeTab e w)
           = Inl (UploadError (''Upload failed: '' @ m))"
  using assms
  by (auto simp: handleFileUpload_v2_def storage_upload_def Let_def
           split: option.splits validation.splits if_splits)

text \<open>
  Claim C6. When the storage service rejects the upload of the main file, both upload
  handlers that attempted it report an UploadError; the catalog is unchanged and no insert
  was issued.
\<close>

theorem failed_main_upload_aborts_without_insert:
  assumes "upload_main e = Error m"
  shows "(uploads (snd (handleFileUpload uploadForm e w)) \<noteq> uploads w \<longrightarrow>
            fst (handleFileUpload uploadForm e w) = Inl (UploadError (''Upload failed: '' @ m)))
         \<and> website_media (snd (handleFileUpload uploadForm e w)) = website_media w
         \<and> inserts (snd (handleFileUpload uploadForm e w)) = inserts w
         \<and> (uploads (snd (handleFileUpload_v2 newMedia activeTab e w)) \<noteq> uploads w \<longrightarrow>
              fst (handleFileUpload_v2 newMedia activeTab e w)
                = Inl (UploadError (''Upload failed: '' @ m)))
         \<and> website_media (snd (handleFileUpload_v2 newMedia activeTab e w)) = website_media w
         \<and> inserts (snd (handleFileUpload_v2 newMedia activeTab e w)) = inserts w"
  by (simp add: handleFileUpload_upload_fails [OF assms] handleFileUpload_v2_upload_fails [OF assms])

lemma show_nat_stamp: "show_nat 1751800000000 = ''1751800000000''"
  by (simp add: show_nat.simps)

lemma png_2mb_fields [simp]:
  "file_name png_2mb = ''dawn.png''" "file_type png_2mb = ''image/png''"
  "file_size png_2mb = 2097152"
  by (simp_all add: png_2mb_def)

lemma validateFile_png_2mb: "validateFile png_2mb False = Valid"
  by (simp add: validateFile_def png_2mb_def ALLOWED_IMAGE_TYPES_def ALLOWED_VIDEO_TYPES_def
      ALL_ALLOWED_TYPES_def MAX_IMAGE_SIZE_def)

text \<open>
  An image upload in each component, the storage service answering \<^verbatim>\<open>quota\<close>.
\<close>

theorem failed_main_upload_aborts_without_insert_witness:
  "uploads (snd (handleFileUpload (blank_uploadForm\<lparr>uf_file := Some png_2mb\<rparr>)
                   (all_succeed\<lparr>upload_main := Error ''quota''\<rparr>) empty_world))
     = [''images/1751800000000_dawn.png'']
   \<and> handleFileUpload (blank_uploadForm\<lparr>uf_file := Some png_2mb\<rparr>)
        (all_succeed\<lparr>upload_main := Error ''quota''\<rparr>) empty_world
      = (Inl (UploadError ''Upload failed: quota''),
         empty_world\<lparr>calls := [StorageUpload ''images/1751800000000_dawn.png''],
                      console_error := [''Error uploading file: quota'']\<rparr>)
   \<and> uploads (snd (handleFileUpload_v2 (blank_form\<lparr>nm_title := ''Dawn'', nm_file := Some png_2mb\<rparr>)
                   artwork (all_succeed\<lparr>upload_main := Error ''quota''\<rparr>) empty_world))
     = [''artworks/1751800000000_dawn.png'']
   \<and> fst (handleFileUpload_v2 (blank_form\<lparr>nm_title := ''Dawn'', nm_file := Some png_2mb\<rparr>)
            artwork (all_succeed\<lparr>upload_main := Error ''quota''\<rparr>) empty_world)
      = Inl (UploadError ''Upload failed: quota'')
   \<and> website_media (snd (handleFileUpload_v2 (blank_form\<lparr>nm_title := ''Dawn'', nm_file := Some png_2mb\<rparr>)
            artwork (all_succeed\<lparr>upload_main := Error ''quota''\<rparr>) empty_world)) = []"
  using failed_main_upload_aborts_without_insert
    [of "all_succeed\<lparr>upload_main := Error ''quota''\<rparr>" "''quota''"
        "blank_uploadForm\<lparr>uf_file := Some png_2mb\<rparr>" empty_world
        "blank_form\<lparr>nm_title := ''Dawn'', nm_file := Some png_2mb\<rparr>" artwork]
  by (simp add: handleFileUpload_def handleFileUpload_v2_def validateFile_png_2mb show_nat_stamp
      blank_uploadForm_def blank_form_def all_succeed_def empty_world_def storage_upload_def
      uploads_def inserts_def issue_def console_error_log_def trim_def is_space_def sanitize_def
      safe_char_def kind_string_def Let_def)

lemma table_insert_fields [simp]:
  "inserts (table_insert d r w) = inserts w @ [d]"
  "media_bucket (table_insert d r w) = media_bucket w"
  "console_error (table_insert d r w) = console_error w"
  "website_media (table_insert d (Data it) w) = website_media w @ [row_of d (fst it) (snd it)]"
  "website_media (table_insert d (Error m) w) = website_media w"
  by (simp_all add: table_insert_def split: response.splits)

lemma storage_upload_fields [simp]:
  "inserts (storage_upload p f r w) = inserts w"
  "website_media (storage_upload p f r w) = website_media w"
  "console_error (storage_upload p f r w) = console_error w"
  by (simp_all add: storage_upload_def split: response.splits)

lemma row_of_thumbnail [simp]:
  "video_thumbnail_url (row_of d i t) = doc_video_thumbnail_url d"
  "video_thumbnail_path (row_of d i t) = doc_video_thumbnail_path d"
  "storagepath (row_of d i t) = doc_storagepath d"
  "isexternallink (row_of d i t) = Some (doc_isexternallink d)"
  "mediatype (row_of d i t) = doc_mediatype d"
  "type' (row_of d i t) = doc_type d"
  "id' (row_of d i t) = i"
  "created_at (row_of d i t) = t"
  by (simp_all add: row_of_def)

lemma refetch_fields [simp]:
  "website_media (refetch q e w) = website_media w"
  "media_bucket (refetch q e w) = media_bucket w"
  "inserts (refetch q e w) = inserts w"
  "console_error (refetch q e w) =
     console_error w @ (case select_rows e of
                          Data u \<Rightarrow> []
                        | Error m \<Rightarrow> [''Error fetching media items: '' @ m])"
  by (simp_all add: refetch_def table_select_def split: response.splits)

lemma handleFileUpload_thumbnail_fails:
  assumes "uf_file uploadForm = Some file" and "uf_thumbnailFile uploadForm = Some thumbnailFile"
    and "uf_mediatype uploadForm = video"
    and "upload_main e = Data ()" and "upload_thumbnail e = Error m"
  shows "\<exists>d. inserts (snd (handleFileUpload uploadForm e w)) = inserts w @ [d]
             \<and> doc_video_thumbnail_url d = None \<and> doc_video_thumbnail_path d = None
             \<and> doc_mediatype d = video
             \<and> (\<forall>i t. insert_row e = Data (i, t) \<longrightarrow>
                   fst (handleFileUpload uploadForm e w) = Inr ''File uploaded successfully''
                   \<and> website_media (snd (handleFileUpload uploadForm e w))
                       = website_media w @ [row_of d i t])"
    and "''Error uploading thumbnail: '' @ m \<in> set (console_error (snd (handleFileUpload uploadForm e w)))"
  using assms
  by (auto simp: handleFileUpload_def Let_def split: response.splits)

lemma handleFileUpload_v2_thumbnail_fails:
  assumes "nm_file newMedia = Some file" and "nm_thumbnailFile newMedia = Some thumbnailFile"
    and "trim (nm_title newMedia) \<noteq> []"
    and "validateFile file False = Valid" and "validateFile thumbnailFile True = Valid"
    and "upload_main e = Data ()" and "upload_thumbnail e = Error m"
  shows "\<exists>d. inserts (snd (handleFileUpload_v2 newMedia video e w)) = inserts w @ [d]
             \<and> doc_video_thumbnail_url d = None \<and> doc_video_thumbnail_path d = None
             \<and> doc_mediatype d = video
             \<and> (\<forall>i t. insert_row e = Data (i, t) \<longrightarrow>
                   fst (handleFileUpload_v2 newMedia video e w) = Inr ''Media uploaded successfully!''
                   \<and> website_media (snd (handleFileUpload_v2 newMedia video e w))
                       = website_media w @ [row_of d i t])"
    and "''Thumbnail upload error: '' @ m
           \<in> set (console_error (snd (handleFileUpload_v2 newMedia video e w)))"
  using assms
  by (auto simp: handleFileUpload_v2_def Let_def split: response.splits)

text \<open>
  Claim C7. A video upload with a thumbnail whose upload the storage service rejects goes
  on: the failure is written to the console, the insert is issued with both thumbnail
  columns null, and when the table accepts the insert the handler reports success and the
  new row is in the catalog.
\<close>

theorem failed_thumbnail_upload_is_not_fatal:
  assumes "upload_main e = Data ()" and "upload_thumbnail e = Error m"
  shows "(uf_file uploadForm = Some file \<and> uf_thumbnailFile uploadForm = Some thumbnailFile
          \<and> uf_mediatype uploadForm = video \<longrightarrow>
            (\<exists>d. inserts (snd (handleFileUpload uploadForm e w)) = inserts w @ [d]
               \<and> doc_video_thumbnail_url d = None \<and> doc_video_thumbnail_path d = None
               \<and> doc_mediatype d = video
               \<and> (\<forall>i t. insert_row e = Data (i, t) \<longrightarrow>
                     fst (handleFileUpload uploadForm e w) = Inr ''File uploaded successfully''
                     \<and> website_media (snd (handleFileUpload uploadForm e w))
                         = website_media w @ [row_of d i t]))
            \<and> ''Error uploading thumbnail: '' @ m
                 \<in> set (console_error (snd (handleFileUpload uploadForm e w))))
       \<and> (nm_file newMedia = Some file \<and> nm_thumbnailFile newMedia = Some thumbnailFile
          \<and> trim (nm_title newMedia) \<noteq> []
          \<and> validateFile file False = Valid \<and> validateFile thumbnailFile True = Valid \<longrightarrow>
            (\<exists>d. inserts (snd (handleFileUpload_v2 newMedia video e w)) = inserts w @ [d]
               \<and> doc_video_thumbnail_url d = None \<and> doc_video_thumbnail_path d = None
               \<and> doc_mediatype d = video
               \<and> (\<forall>i t. insert_row e = Data (i, t) \<longrightarrow>
                     fst (handleFileUpload_v2 newMedia video e w) = Inr ''Media uploaded successfully!''
                     \<and> website_media (snd (handleFileUpload_v2 newMedia video e w))
                         = website_media w @ [row_of d i t]))
            \<and> ''Thumbnail upload error: '' @ m
                 \<in> set (console_error (snd (handleFileUpload_v2 newMedia video e w))))"
proof (intro conjI impI)
  assume h: "uf_file uploadForm = Some file \<and> uf_thumbnailFile uploadForm = Some thumbnailFile
             \<and> uf_mediatype uploadForm = video"
  then have f: "uf_file uploadForm = Some file"
    and t: "uf_thumbnailFile uploadForm = Some thumbnailFile"
    and k: "uf_mediatype uploadForm = video" by simp_all
  show "\<exists>d. inserts (snd (handleFileUpload uploadForm e w)) = inserts w @ [d]
               \<and> doc_video_thumbnail_url d = None \<and> doc_video_thumbnail_path d = None
               \<and> doc_mediatype d = video
               \<and> (\<forall>i t. insert_row e = Data (i, t) \<longrightarrow>
                     fst (handleFileUpload uploadForm e w) = Inr ''File uploaded successfully''
                     \<and> website_media (snd (handleFileUpload uploadForm e w))
                         = website_media w @ [row_of d i t])"
    by (rule handleFileUpload_thumbnail_fails(1) [OF f t k assms])
  show "''Error uploading thumbnail: '' @ m
          \<in> set (console_error (snd (handleFileUpload uploadForm e w)))"
    by (rule handleFileUpload_thumbnail_fails(2) [OF f t k assms])
next
  assume h: "nm_file newMedia = Some file \<and> nm_thumbnailFile newMedia = Some thumbnailFile
             \<and> trim (nm_title newMedia) \<noteq> []
             \<and> validateFile file False = Valid \<and> validateFile thumbnailFile True = Valid"
  then have f: "nm_file newMedia = Some file"
    and t: "nm_thumbnailFile newMedia = Some thumbnailFile"
    and n: "trim (nm_title newMedia) \<noteq> []"
    and v: "validateFile file False = Valid" and vt: "validateFile thumbnailFile True = Valid"
    by simp_all
  show "\<exists>d. inserts (snd (handleFileUpload_v2 newMedia video e w)) = inserts w @ [d]
               \<and> doc_video_thumbnail_url d = None \<and> doc_video_thumbnail_path d = None
               \<and> doc_mediatype d = video
               \<and> (\<forall>i t. insert_row e = Data (i, t) \<longrightarrow>
                     fst (handleFileUpload_v2 newMedia video e w) = Inr ''Media uploaded successfully!''
                     \<and> website_media (snd (handleFileUpload_v2 newMedia video e w))
                         = website_media w @ [row_of d i t])"
    by (rule handleFileUpload_v2_thumbnail_fails(1) [OF f t n v vt assms])
  show "''Thumbnail upload error: '' @ m
          \<in> set (console_error (snd (handleFileUpload_v2 newMedia video e w)))"
    by (rule handleFileUpload_v2_thumbnail_fails(2) [OF f t n v vt assms])
qed

lemma mp4_50mb_fields [simp]:
  "file_name mp4_50mb = ''reel.mp4''" "file_type mp4_50mb = ''video/mp4''"
  "file_size mp4_50mb = 52428800"
  by (simp_all add: mp4_50mb_def)

lemma png_1mb_fields [simp]:
  "file_name png_1mb = ''cover.png''" "file_type png_1mb = ''image/png''"
  "file_size png_1mb = 1048576"
  by (simp_all add: png_1mb_def)

lemma validateFile_mp4_50mb: "validateFile mp4_50mb False = Valid"
  by (simp add: validateFile_def ALLOWED_IMAGE_TYPES_def ALLOWED_VIDEO_TYPES_def
      ALL_ALLOWED_TYPES_def MAX_IMAGE_SIZE_def MAX_VIDEO_SIZE_def toLowerCase_def endsWith_def)

lemma validateFile_png_1mb: "validateFile png_1mb True = Valid"
  by (simp add: validateFile_def ALLOWED_IMAGE_TYPES_def MAX_THUMBNAIL_SIZE_def)

lemma trim_Reel: "trim ''Reel'' = ''Reel''"
  by (simp add: trim_def is_space_def)

text \<open>
  A 50 MB video with a 1 MB PNG thumbnail in each component, the thumbnail upload
  answering \<^verbatim>\<open>timeout\<close>.
\<close>

theorem failed_thumbnail_upload_is_not_fatal_witness:
  "fst (handleFileUpload
          (blank_uploadForm\<lparr>uf_file := Some mp4_50mb, uf_thumbnailFile := Some png_1mb,
                            uf_mediatype := video\<rparr>)
          (all_succeed\<lparr>upload_thumbnail := Error ''timeout''\<rparr>) empty_world)
     = Inr ''File uploaded successfully''
   \<and> map (\<lambda>r. (id' r, video_thumbnail_url r, video_thumbnail_path r))
        (website_media (snd (handleFileUpload
          (blank_uploadForm\<lparr>uf_file := Some mp4_50mb, uf_thumbnailFile := Some png_1mb,
                            uf_mediatype := video\<rparr>)
          (all_succeed\<lparr>upload_thumbnail := Error ''timeout''\<rparr>) empty_world)))
     = [(''7f3c'', None, None)]
   \<and> fst (handleFileUpload_v2
          (blank_form\<lparr>nm_title := ''Reel'', nm_file := Some mp4_50mb,
                      nm_thumbnailFile := Some png_1mb\<rparr>) video
          (all_succeed\<lparr>upload_thumbnail := Error ''timeout''\<rparr>) empty_world)
     = Inr ''Media uploaded successfully!''
   \<and> map (\<lambda>r. (id' r, video_thumbnail_url r, video_thumbnail_path r))
        (website_media (snd (handleFileUpload_v2
          (blank_form\<lparr>nm_title := ''Reel'', nm_file := Some mp4_50mb,
                      nm_thumbnailFile := Some png_1mb\<rparr>) video
          (all_succeed\<lparr>upload_thumbnail := Error ''timeout''\<rparr>) empty_world)))
     = [(''7f3c'', None, None)]
   \<and> console_error (snd (handleFileUpload_v2
          (blank_form\<lparr>nm_title := ''Reel'', nm_file := Some mp4_50mb,
                      nm_thumbnailFile := Some png_1mb\<rparr>) video
          (all_succeed\<lparr>upload_thumbnail := Error ''timeout''\<rparr>) empty_world))
     = [''Thumbnail upload error: timeout'']"
  using failed_thumbnail_upload_is_not_fatal
    [of "all_succeed\<lparr>upload_thumbnail := Error ''timeout''\<rparr>" "''timeout''"
        "blank_uploadForm\<lparr>uf_file := Some mp4_50mb, uf_thumbnailFile := Some png_1mb,
                          uf_mediatype := video\<rparr>"
        mp4_50mb png_1mb empty_world
        "blank_form\<lparr>nm_title := ''Reel'', nm_file := Some mp4_50mb,
                    nm_thumbnailFile := Some png_1mb\<rparr>"]
  by (simp add: handleFileUpload_def handleFileUpload_v2_def validateFile_mp4_50mb
      validateFile_png_1mb trim_Reel blank_uploadForm_def blank_form_def all_succeed_def
      empty_world_def Let_def)

lemma frame_apply_update [simp]: "frame (apply_update u r) = frame r"
  by (simp add: frame_def apply_update_def)

lemma updates_simps [simp]:
  "updates (issue (TableUpdate i u) w) = updates w @ [(i, u)]"
  "updates (issue (StorageUpload p) w) = updates w"
  "updates (issue (TableInsert d) w) = updates w"
  "updates (issue (StorageRemove p) w) = updates w"
  "updates (issue (TableDelete i) w) = updates w"
  "updates (issue (TableSelect q) w) = updates w"
  "updates (console_error_log m w) = updates w"
  "updates (w\<lparr>media_bucket := b\<rparr>) = updates w"
  "updates (w\<lparr>website_media := rows\<rparr>) = updates w"
  by (simp_all add: updates_def issue_def console_error_log_def)

lemma table_update_fields [simp]:
  "updates (table_update i u r w) = updates w @ [(i, u)]"
  "media_bucket (table_update i u r w) = media_bucket w"
  "map frame (website_media (table_update i u r w)) = map frame (website_media w)"
  "length (website_media (table_update i u r w)) = length (website_media w)"
  by (simp_all add: table_update_def o_def split: response.splits)

lemma refetch_updates [simp]: "updates (refetch q e w) = updates w"
  by (simp add: refetch_def table_select_def split: response.splits)



lemma run_query_no_limit:
  assumes "limit q = None" and "order_ascending q = False"
  shows "mset (run_query q rows)
           = mset (case eq_mediatype q of None \<Rightarrow> rows
                   | Some k \<Rightarrow> filter (\<lambda>row. mediatype row = k) rows)"
    and "sorted_wrt (\<lambda>a b. created_at b \<le> created_at a) (run_query q rows)"
proof -
  let ?m = "case eq_mediatype q of None \<Rightarrow> rows | Some k \<Rightarrow> filter (\<lambda>row. mediatype row = k) rows"
  have r: "run_query q rows = rev (sort_key created_at ?m)"
    using assms by (simp add: run_query_def)
  show "mset (run_query q rows) = mset ?m" by (simp add: r)
  have "sorted (map created_at (sort_key created_at ?m))" by (rule sorted_sort_key)
  then have "sorted_wrt (\<lambda>a b. created_at a \<le> created_at b) (sort_key created_at ?m)"
    by (simp add: sorted_wrt_map)
  then show "sorted_wrt (\<lambda>a b. created_at b \<le> created_at a) (run_query q rows)"
    by (simp add: r sorted_wrt_rev)
qed

text \<open>
  Claim C5. When the table answers, the snapshot of each component holds every row of the
  catalog of its kind (every row at all for the two admin components), each as often as
  the catalog has it, newest first. No query carries a limit.
\<close>

theorem fetch_returns_all_matching_rows_newest_first:
  assumes "select_rows e = Data ()"
  shows "mset (mediaItems (fst (fetchMediaItems_videos e (v, w))))
           = mset (filter (\<lambda>row. mediatype row = video) (website_media w))
       \<and> sorted_wrt (\<lambda>a b. created_at b \<le> created_at a)
           (mediaItems (fst (fetchMediaItems_videos e (v, w))))
       \<and> mset (mediaItems (fst (fetchMediaItems_work e (v, w))))
           = mset (filter (\<lambda>row. mediatype row = artwork) (website_media w))
       \<and> sorted_wrt (\<lambda>a b. created_at b \<le> created_at a)
           (mediaItems (fst (fetchMediaItems_work e (v, w))))
       \<and> mset (mediaItems (fst (fetchMediaItems e (v, w)))) = mset (website_media w)
       \<and> sorted_wrt (\<lambda>a b. created_at b \<le> created_at a)
           (mediaItems (fst (fetchMediaItems e (v, w))))
       \<and> mset (mediaItems (fst (fetchMediaItems_v2 e (v, w)))) = mset (website_media w)
       \<and> sorted_wrt (\<lambda>a b. created_at b \<le> created_at a)
           (mediaItems (fst (fetchMediaItems_v2 e (v, w))))"
proof -
  have v: "mediaItems (fst (fetchMediaItems_videos e (v, w))) = run_query videos_query (website_media w)"
    using assms by (simp add: fetchMediaItems_videos_def fetched_videos_def table_select_def)
  have k: "mediaItems (fst (fetchMediaItems_work e (v, w))) = run_query work_query (website_media w)"
    using assms by (simp add: fetchMediaItems_work_def fetched_work_def table_select_def)
  have a: "mediaItems (fst (fetchMediaItems e (v, w))) = run_query admin_query (website_media w)"
    using assms by (simp add: fetchMediaItems_def fetched_admin_def table_select_def)
  have b: "mediaItems (fst (fetchMediaItems_v2 e (v, w))) = run_query admin_query (website_media w)"
    using assms by (simp add: fetchMediaItems_v2_def fetched_admin_v2_def table_select_def)
  have qv: "limit videos_query = None" "order_ascending videos_query = False"
           "eq_mediatype videos_query = Some video"
    by (simp_all add: videos_query_def)
  have qk: "limit work_query = None" "order_ascending work_query = False"
           "eq_mediatype work_query = Some artwork"
    by (simp_all add: work_query_def)
  have qa: "limit admin_query = None" "order_ascending admin_query = False"
           "eq_mediatype admin_query = None"
    by (simp_all add: admin_query_def)
  show ?thesis
    using run_query_no_limit [OF qv(1,2), of "website_media w"]
          run_query_no_limit [OF qk(1,2), of "website_media w"]
          run_query_no_limit [OF qa(1,2), of "website_media w"]
    by (simp add: v k a b qv(3) qk(3) qa(3))
qed

text \<open>
  A catalog of two videos and one artwork, read by the four components.
\<close>

theorem fetch_returns_all_matching_rows_newest_first_witness:
  "mediaItems (fst (fetchMediaItems_videos all_succeed
       (loading_view, empty_world\<lparr>website_media := [clip_row, dawn_row, reel_row]\<rparr>)))
     = [reel_row, clip_row]
   \<and> mediaItems (fst (fetchMediaItems_work all_succeed
       (loading_view, empty_world\<lparr>website_media := [clip_row, dawn_row, reel_row]\<rparr>)))
     = [dawn_row]
   \<and> mediaItems (fst (fetchMediaItems all_succeed
       (loading_view, empty_world\<lparr>website_media := [clip_row, dawn_row, reel_row]\<rparr>)))
     = [reel_row, clip_row, dawn_row]
   \<and> mset (mediaItems (fst (fetchMediaItems_v2 all_succeed
       (loading_view, empty_world\<lparr>website_media := [clip_row, dawn_row, reel_row]\<rparr>))))
     = mset [clip_row, dawn_row, reel_row]"
  using fetch_returns_all_matching_rows_newest_first
    [of all_succeed loading_view "empty_world\<lparr>website_media := [clip_row, dawn_row, reel_row]\<rparr>"]
  by (simp add: fetchMediaItems_videos_def fetchMediaItems_work_def fetchMediaItems_def
      fetchMediaItems_v2_def fetched_videos_def fetched_work_def fetched_admin_def
      fetched_admin_v2_def table_select_def run_query_def videos_query_def work_query_def
      admin_query_def all_succeed_def empty_world_def loading_view_def
      clip_row_def dawn_row_def reel_row_def)

lemma arrivals_videos_latest:
  "mediaItems (foldl arrive_videos v as)
     = (case latest_data as of None \<Rightarrow> mediaItems v | Some d \<Rightarrow> d)"
proof (induction as arbitrary: v)
  case Nil
  show ?case by simp
next
  case (Cons a as)
  have "mediaItems (arrive_videos v a)
          = (case snd a of Data d \<Rightarrow> d | Error m \<Rightarrow> mediaItems v)"
    by (simp add: arrive_videos_def fetched_videos_def split: response.splits)
  then show ?case
    by (simp add: Cons.IH split: option.splits response.splits)
qed

lemma arrivals_work_latest:
  "mediaItems (foldl arrive_work v as)
     = (case latest_data as of None \<Rightarrow> mediaItems v | Some d \<Rightarrow> d)"
proof (induction as arbitrary: v)
  case Nil
  show ?case by simp
next
  case (Cons a as)
  have "mediaItems (arrive_work v a)
          = (case snd a of Data d \<Rightarrow> d | Error m \<Rightarrow> mediaItems v)"
    by (simp add: arrive_work_def fetched_work_def split: response.splits)
  then show ?case
    by (simp add: Cons.IH split: option.splits response.splits)
qed

text \<open>
  Claim C3, as the code has it. After any sequence of arrivals the snapshot of a gallery
  is the data of the answer that arrived last (the earlier snapshot when no answer carried
  data): last write wins by order of arrival, whatever the order in which the fetches were
  started.
\<close>

theorem snapshot_is_latest_arrival:
  "mediaItems (foldl arrive_videos v as)
     = (case latest_data as of None \<Rightarrow> mediaItems v | Some d \<Rightarrow> d)
   \<and> mediaItems (foldl arrive_work v as)
     = (case latest_data as of None \<Rightarrow> mediaItems v | Some d \<Rightarrow> d)"
  by (simp add: arrivals_videos_latest arrivals_work_latest)

text \<open>
  Claim C3 as stated fails. Fetch 1 is started while the catalog holds \<open>clip_row\<close>, fetch 2
  after \<open>reel_row\<close> was added. The answer of fetch 2 arrives first and is shown; the answer
  of fetch 1 arrives next and replaces it, so the newer row disappears from the snapshot.
\<close>

theorem stale_answer_overwrites_newer_snapshot:
  "mediaItems (arrive_videos loading_view
                 (2, Data (run_query videos_query [clip_row, reel_row])))
     = [reel_row, clip_row]
   \<and> mediaItems (arrive_videos
                   (arrive_videos loading_view
                      (2, Data (run_query videos_query [clip_row, reel_row])))
                   (1, Data (run_query videos_query [clip_row])))
     = [clip_row]"
  by (simp add: arrive_videos_def fetched_videos_def run_query_def videos_query_def
      loading_view_def clip_row_def reel_row_def)

lemma links_append [simp]:
  "links_have_no_paths (rows @ [r]) =
     (links_have_no_paths rows \<and>
      (isexternallink r = Some True \<longrightarrow> storagepath r = None \<and> video_thumbnail_path r = None))"
  by (auto simp: links_have_no_paths_def)

lemma links_filter: "links_have_no_paths rows \<Longrightarrow> links_have_no_paths (filter P rows)"
  by (simp add: links_have_no_paths_def)

lemma apply_update_paths [simp]:
  "isexternallink (apply_update u r) = isexternallink r"
  "storagepath (apply_update u r) = storagepath r"
  "video_thumbnail_path (apply_update u r) = video_thumbnail_path r"
  by (simp_all add: apply_update_def)

lemma links_update:
  "links_have_no_paths rows \<Longrightarrow>
   links_have_no_paths (map (\<lambda>row. if id' row = i then apply_update u row else row) rows)"
  by (auto simp: links_have_no_paths_def)

lemma links_table_delete:
  "links_have_no_paths (website_media w) \<Longrightarrow> links_have_no_paths (website_media (table_delete i r w))"
  by (cases r) (simp_all add: table_delete_def links_filter)

lemma links_table_update:
  "links_have_no_paths (website_media w) \<Longrightarrow> links_have_no_paths (website_media (table_update i u r w))"
  by (cases r) (simp_all add: table_update_def links_update)

lemma storage_remove_rows [simp]: "website_media (storage_remove p r w) = website_media w"
  by (cases r) (simp_all add: storage_remove_def)

lemma links_table_insert:
  assumes "links_have_no_paths (website_media w)"
    and "doc_isexternallink d \<longrightarrow> doc_storagepath d = None \<and> doc_video_thumbnail_path d = None"
  shows "links_have_no_paths (website_media (table_insert d r w))"
  using assms by (cases r) simp_all

lemma links_handleFileUpload:
  "links_have_no_paths (website_media w) \<Longrightarrow>
   links_have_no_paths (website_media (snd (handleFileUpload f e w)))"
  by (auto simp: handleFileUpload_def Let_def intro!: links_table_insert
           split: option.splits response.splits)

lemma links_handleFileUpload_v2:
  "links_have_no_paths (website_media w) \<Longrightarrow>
   links_have_no_paths (website_media (snd (handleFileUpload_v2 n k e w)))"
  by (auto simp: handleFileUpload_v2_def Let_def intro!: links_table_insert
           split: option.splits response.splits validation.splits)

lemma links_handleExternalLinkUpload:
  "links_have_no_paths (website_media w) \<Longrightarrow>
   links_have_no_paths (website_media (snd (handleExternalLinkUpload f e w)))"
  by (auto simp: handleExternalLinkUpload_def Let_def intro!: links_table_insert
           split: response.splits)

lemma links_handleLinkSubmission:
  "links_have_no_paths (website_media w) \<Longrightarrow>
   links_have_no_paths (website_media (snd (handleLinkSubmission n k e w)))"
  by (auto simp: handleLinkSubmission_def Let_def intro!: links_table_insert
           split: response.splits validation.splits)

lemma links_handleUpdate:
  "links_have_no_paths (website_media w) \<Longrightarrow>
   links_have_no_paths (website_media (snd (handleUpdate i f e w)))"
  by (auto simp: handleUpdate_def Let_def intro!: links_table_update split: response.splits)

lemma links_handleUpdateMedia:
  "links_have_no_paths (website_media w) \<Longrightarrow>
   links_have_no_paths (website_media (snd (handleUpdateMedia item e w)))"
  by (auto simp: handleUpdateMedia_def Let_def intro!: links_table_update
           split: response.splits option.splits)

lemma links_handleDelete:
  "links_have_no_paths (website_media w) \<Longrightarrow>
   links_have_no_paths (website_media (snd (handleDelete i p e w)))"
  by (auto simp: handleDelete_def Let_def intro!: links_table_delete split: response.splits)

lemma links_handleDeleteMedia:
  "links_have_no_paths (website_media w) \<Longrightarrow>
   links_have_no_paths (website_media (snd (handleDeleteMedia item e w)))"
  by (auto simp: handleDeleteMedia_def Let_def intro!: links_table_delete split: response.splits)

lemma links_perform:
  "links_have_no_paths (website_media w) \<Longrightarrow> links_have_no_paths (website_media (perform op e w))"
  by (cases op)
     (simp_all add: links_handleFileUpload links_handleFileUpload_v2 links_handleExternalLinkUpload
        links_handleLinkSubmission links_handleUpdate links_handleUpdateMedia links_handleDelete
        links_handleDeleteMedia)

lemma links_perform_all:
  "links_have_no_paths (website_media w) \<Longrightarrow>
   links_have_no_paths (website_media (perform_all ops w))"
  by (induction ops arbitrary: w) (simp_all add: links_perform)

lemma run_query_subset: "set (run_query q rows) \<subseteq> set rows"
  by (cases "limit q"; cases "eq_mediatype q"; cases "order_ascending q")
     (auto simp: run_query_def Let_def dest: in_set_takeD)

text \<open>
  The external-link handlers insert documents that carry the flag and no path; the file
  handlers insert documents without the flag.
\<close>

lemma link_handlers_insert_flagged_docs:
  "inserts (snd (handleLinkSubmission n k e w)) = inserts w
   \<or> (\<exists>d. inserts (snd (handleLinkSubmission n k e w)) = inserts w @ [d]
          \<and> doc_isexternallink d \<and> doc_storagepath d = None
          \<and> doc_video_thumbnail_path d = None)"
  "inserts (snd (handleExternalLinkUpload f e w)) = inserts w
   \<or> (\<exists>d. inserts (snd (handleExternalLinkUpload f e w)) = inserts w @ [d]
          \<and> doc_isexternallink d \<and> doc_storagepath d = None
          \<and> doc_video_thumbnail_path d = None)"
  by (auto simp: handleLinkSubmission_def handleExternalLinkUpload_def Let_def
           split: response.splits validation.splits)

lemma file_handlers_insert_unflagged_docs:
  "inserts (snd (handleFileUpload f e w)) = inserts w
   \<or> (\<exists>d. inserts (snd (handleFileUpload f e w)) = inserts w @ [d] \<and> \<not> doc_isexternallink d)"
  "inserts (snd (handleFileUpload_v2 n k e w)) = inserts w
   \<or> (\<exists>d. inserts (snd (handleFileUpload_v2 n k e w)) = inserts w @ [d]
          \<and> \<not> doc_isexternallink d)"
  by (auto simp: handleFileUpload_def handleFileUpload_v2_def Let_def
           split: response.splits validation.splits option.splits)

text \<open>
  Claim C4. Rows created through the two external-link handlers carry the flag
  \<^verbatim>\<open>isexternallink\<close> and no other handler sets it. From a catalog in which every flagged
  row has null \<^verbatim>\<open>storagepath\<close> and \<^verbatim>\<open>video_thumbnail_path\<close> (the empty catalog
  is one), after any sequence of admin operations, every flagged row that any read query
  returns has both paths null.
\<close>

theorem fetched_links_have_no_storage_paths:
  assumes "links_have_no_paths (website_media w)"
    and "r \<in> set (run_query q (website_media (perform_all ops w)))"
    and "isexternallink r = Some True"
  shows "storagepath r = None \<and> video_thumbnail_path r = None"
proof -
  have "links_have_no_paths (website_media (perform_all ops w))"
    using assms(1) by (rule links_perform_all)
  moreover have "r \<in> set (website_media (perform_all ops w))"
    using assms(2) run_query_subset by blast
  ultimately show ?thesis
    using assms(3) by (simp add: links_have_no_paths_def)
qed

lemma all_succeed_fields [simp]:
  "now all_succeed = 1751800000000" "now_thumbnail all_succeed = 1751800000001"
  "upload_main all_succeed = Data ()" "upload_thumbnail all_succeed = Data ()"
  "insert_row all_succeed = Data (''7f3c'', 20)" "update_row all_succeed = Data ()"
  "delete_row all_succeed = Data ()" "remove_main all_succeed = Data ()"
  "remove_thumbnail all_succeed = Data ()" "select_rows all_succeed = Data ()"
  "public_url all_succeed p = ''https://cdn.example/media/'' @ p"
  "url_parses all_succeed s = (take 8 s = ''https://'')"
  by (simp_all add: all_succeed_def)

lemma empty_world_fields [simp]:
  "website_media empty_world = []" "media_bucket empty_world = []"
  "calls empty_world = []" "console_error empty_world = []"
  by (simp_all add: empty_world_def)

lemma trim_Clip: "trim ''Clip'' = ''Clip''"
  by (simp add: trim_def is_space_def)

lemma trim_clip_url:
  "trim ''https://youtube.com/watch?v=abc12345678'' = ''https://youtube.com/watch?v=abc12345678''"
  by (simp add: trim_def is_space_def)

lemma link_form_fields [simp]:
  "nm_title link_form = ''Clip''"
  "nm_externalUrl link_form = ''https://youtube.com/watch?v=abc12345678''"
  "nm_description link_form = []" "nm_type_detail link_form = []"
  "nm_linkType link_form = LinkImage"
  by (simp_all add: link_form_def blank_form_def)

lemma trim_Nil: "trim [] = []"
  by (simp add: trim_def)

lemma link_doc:
  "validateUrl all_succeed ''https://youtube.com/watch?v=abc12345678'' = Valid"
  by (simp add: validateUrl_def)

lemma link_submitted_on_video_tab:
  "fst (handleLinkSubmission link_form video all_succeed empty_world)
     = Inr ''Link saved successfully!''"
  "website_media (snd (handleLinkSubmission link_form video all_succeed empty_world))
     = [clip_link_row]"
  by (simp_all add: handleLinkSubmission_def link_doc trim_Clip trim_clip_url trim_Nil
      row_of_def clip_link_row_def Let_def)

lemma clip_link_row_retitled:
  "website_media (snd (handleUpdate ''7f3c'' retitle all_succeed w))
     = map (\<lambda>row. if id' row = ''7f3c'' then row\<lparr>title := Some ''Clip 2''\<rparr> else row)
         (website_media w)"
  by (simp add: handleUpdate_def updateData_of_def retitle_def table_update_def apply_update_def
      Let_def)

lemma clip_link_row_fields [simp]:
  "id' clip_link_row = ''7f3c''" "mediatype clip_link_row = video"
  "isexternallink clip_link_row = Some True" "type' clip_link_row = ''image-link''"
  "storagepath clip_link_row = None" "video_thumbnail_path clip_link_row = None"
  by (simp_all add: clip_link_row_def)

text \<open>
  A link is added on the video tab and retitled; the videos query returns it.
\<close>

theorem fetched_links_have_no_storage_paths_witness:
  "links_have_no_paths (website_media empty_world)
   \<and> clip_link_row\<lparr>title := Some ''Clip 2''\<rparr>
       \<in> set (run_query videos_query
                (website_media
                   (perform_all [(LinkSubmission link_form video, all_succeed),
                                 (Update ''7f3c'' retitle, all_succeed)]
                      empty_world)))
   \<and> isexternallink (clip_link_row\<lparr>title := Some ''Clip 2''\<rparr>) = Some True
   \<and> storagepath (clip_link_row\<lparr>title := Some ''Clip 2''\<rparr>) = None
   \<and> video_thumbnail_path (clip_link_row\<lparr>title := Some ''Clip 2''\<rparr>) = None"
  using fetched_links_have_no_storage_paths
    [of empty_world "clip_link_row\<lparr>title := Some ''Clip 2''\<rparr>" videos_query
        "[(LinkSubmission link_form video, all_succeed), (Update ''7f3c'' retitle, all_succeed)]"]
  by (simp add: link_submitted_on_video_tab clip_link_row_retitled run_query_def
      videos_query_def links_have_no_paths_def)

text \<open>
  The tag of an external link: the first admin component derives it from the kind, the
  second from the form's link type, whatever the tab.
\<close>

lemma handleExternalLinkUpload_tag_follows_kind:
  "inserts (snd (handleExternalLinkUpload f e w)) = inserts w
   \<or> (\<exists>d. inserts (snd (handleExternalLinkUpload f e w)) = inserts w @ [d]
          \<and> doc_type d = (if doc_mediatype d = video then ''video-link'' else ''image-link''))"
  by (auto simp: handleExternalLinkUpload_def Let_def split: response.splits)

lemma handleLinkSubmission_tag_follows_linkType:
  "inserts (snd (handleLinkSubmission n k e w)) = inserts w
   \<or> (\<exists>d. inserts (snd (handleLinkSubmission n k e w)) = inserts w @ [d]
          \<and> doc_mediatype d = k
          \<and> doc_type d = (if nm_linkType n = LinkImage then ''image-link'' else ''video-link''))"
  by (cases k)
     (auto simp: handleLinkSubmission_def Let_def split: response.splits validation.splits)

text \<open>
  Claim C10. On the video tab, with the form's link type left at \<^verbatim>\<open>image\<close>,
  \<^verbatim>\<open>handleLinkSubmission\<close> inserts an external link of kind video tagged
  \<^verbatim>\<open>image-link\<close>. The filter of the videos gallery keeps the row by its kind, and the
  filter of the work gallery keeps it by its tag.
\<close>

theorem link_tag_can_disagree_with_kind:
  "\<exists>newMedia activeTab e w row.
      fst (handleLinkSubmission newMedia activeTab e w) = Inr ''Link saved successfully!''
      \<and> website_media (snd (handleLinkSubmission newMedia activeTab e w)) = website_media w @ [row]
      \<and> isexternallink row = Some True
      \<and> mediatype row = video \<and> type' row = ''image-link''
      \<and> videoItems [row] = [row]
      \<and> artworkItems [row] = [row]"
proof (intro exI)
  show "fst (handleLinkSubmission link_form video all_succeed empty_world)
          = Inr ''Link saved successfully!''
        \<and> website_media (snd (handleLinkSubmission link_form video all_succeed empty_world))
          = website_media empty_world @ [clip_link_row]
        \<and> isexternallink clip_link_row = Some True
        \<and> mediatype clip_link_row = video \<and> type' clip_link_row = ''image-link''
        \<and> videoItems [clip_link_row] = [clip_link_row]
        \<and> artworkItems [clip_link_row] = [clip_link_row]"
    by (simp add: link_submitted_on_video_tab videoItems_def artworkItems_def)
qed

text \<open>
  Every insert of the source writes a string into title, description and type_detail, and
  an update writes strings only: rows that hold all three keep holding them under every
  admin operation, and so does the record being edited under what the admin types.
\<close>

lemma columns_append [simp]:
  "columns_present (rows @ [r]) =
     (columns_present rows \<and> title r \<noteq> None \<and> description r \<noteq> None \<and> type_detail r \<noteq> None)"
  by (auto simp: columns_present_def)





lemma row_of_text [simp]:
  "title (row_of d i t) = Some (doc_title d)"
  "description (row_of d i t) = Some (doc_description d)"
  "type_detail (row_of d i t) = Some (doc_type_detail d)"
  "name (row_of d i t) = doc_name d"
  by (simp_all add: row_of_def)



















lemma retitle_fields [simp]:
  "ef_title retitle = Some ''Clip 2''" "ef_description retitle = None"
  "ef_type_detail retitle = None" "ef_name retitle = None"
  by (simp_all add: retitle_def)

lemma clip_link_row_text [simp]:
  "title clip_link_row = Some ''Clip''" "description clip_link_row = Some []"
  "type_detail clip_link_row = Some []" "name clip_link_row = ''Clip''"
  by (simp_all add: clip_link_row_def)







lemma dawn_row_fields [simp]:
  "id' dawn_row = ''a1''" "isexternallink dawn_row = Some False"
  "storagepath dawn_row = Some ''images/1_dawn.png''" "video_thumbnail_path dawn_row = None"
  by (simp_all add: dawn_row_def)



end
